theory Spec2Isabelle
  imports Complex_Main "HOL-Library.AList"
begin

section \<open>POAV analysis of scikit-nano (\<open>sknano/core/atoms/_poav_atom.py\<close>)\<close>

text \<open>
  A shallow embedding of the classes \<open>POAV\<close>, \<open>POAV1\<close>, \<open>POAV2\<close>, \<open>POAVR\<close>,
  \<open>POAVAtomMixin\<close> and \<open>POAVAtom\<close>.

  Numbers. The source computes with numpy \<open>float64\<close>. The model computes with the real
  numbers (no rounding, no overflow) and keeps one thing of the floating-point
  behaviour: a division by zero does not raise. numpy warns and goes on with \<open>inf\<close> or
  \<open>nan\<close>; the model marks the value \<open>InfNaN\<close>, and every value computed from a
  marked one is marked too (the model does not follow \<open>inf\<close> and \<open>nan\<close> any further).

  Exceptions. The only exception the source raises itself is Python's \<open>TypeError\<close>
  (in the setters); reading an index of \<open>None\<close> raises \<open>TypeError\<close> and reading past
  the end of a sequence raises \<open>IndexError\<close>. A function of the model that can raise
  returns \<open>py_error + 'a\<close>; one whose source has no raising path returns its value.
\<close>

subsection \<open>Exceptions and numpy numbers\<close>

datatype py_error = TypeError | IndexError

datatype 'a np = Finite 'a | InfNaN

fun np_neg :: "real np \<Rightarrow> real np" where
  "np_neg (Finite x) = Finite (- x)"
| "np_neg InfNaN = InfNaN"

fun np_add :: "real np \<Rightarrow> real np \<Rightarrow> real np" where
  "np_add (Finite x) (Finite y) = Finite (x + y)"
| "np_add _ _ = InfNaN"

fun np_sub :: "real np \<Rightarrow> real np \<Rightarrow> real np" where
  "np_sub (Finite x) (Finite y) = Finite (x - y)"
| "np_sub _ _ = InfNaN"

fun np_mul :: "real np \<Rightarrow> real np \<Rightarrow> real np" where
  "np_mul (Finite x) (Finite y) = Finite (x * y)"
| "np_mul _ _ = InfNaN"

text \<open>\<open>x / y\<close> on \<open>float64\<close>: a zero divisor gives \<open>inf\<close> or \<open>nan\<close>, no exception.\<close>

fun np_div :: "real np \<Rightarrow> real np \<Rightarrow> real np" where
  "np_div (Finite x) (Finite y) = (if y = 0 then InfNaN else Finite (x / y))"
| "np_div _ _ = InfNaN"

fun np_cos :: "real np \<Rightarrow> real np" where
  "np_cos (Finite x) = Finite (cos x)"
| "np_cos InfNaN = InfNaN"

text \<open>\<open>np.mean\<close> of a list: the mean of the empty list is \<open>nan\<close> (with a warning).\<close>

definition np_mean :: "real list \<Rightarrow> real np" where
  "np_mean xs = np_div (Finite (sum_list xs)) (Finite (real (length xs)))"

text \<open>\<open>np.degrees\<close> of a list of radians.\<close>

definition np_degrees :: "real list \<Rightarrow> real list" where
  "np_degrees xs = map (\<lambda>x. x * 180 / pi) xs"

subsection \<open>Vectors\<close>

text \<open>
  Modelled from the spec: the module \<open>sknano.core.math.vector\<close> (class \<open>Vector\<close>,
  \<open>vec.cross\<close>, \<open>vec.scalar_triple_product\<close>) is not among the sources. The spec
  gives Vector3 as a 3-component real vector with dot, cross, scalar triple product,
  magnitude and unit vector (undefined at magnitude 0), and the scalar triple product as
  \<open>u \<cdot> (v \<times> w)\<close>. The components are numpy numbers, so the unit vector of the zero
  vector and every division of a vector by zero is marked \<open>InfNaN\<close>.
\<close>

datatype Vector = Vector real real real

fun vdot :: "Vector \<Rightarrow> Vector \<Rightarrow> real" where
  "vdot (Vector x1 y1 z1) (Vector x2 y2 z2) = x1 * x2 + y1 * y2 + z1 * z2"

fun vcross :: "Vector \<Rightarrow> Vector \<Rightarrow> Vector" where
  "vcross (Vector x1 y1 z1) (Vector x2 y2 z2) =
     Vector (y1 * z2 - z1 * y2) (z1 * x2 - x1 * z2) (x1 * y2 - y1 * x2)"

fun vadd :: "Vector \<Rightarrow> Vector \<Rightarrow> Vector" where
  "vadd (Vector x1 y1 z1) (Vector x2 y2 z2) = Vector (x1 + x2) (y1 + y2) (z1 + z2)"

fun vscale :: "real \<Rightarrow> Vector \<Rightarrow> Vector" where
  "vscale c (Vector x y z) = Vector (c * x) (c * y) (c * z)"

definition vector_length :: "Vector \<Rightarrow> real" where
  "vector_length v = sqrt (vdot v v)"

fun dot :: "Vector np \<Rightarrow> Vector np \<Rightarrow> real np" where
  "dot (Finite u) (Finite v) = Finite (vdot u v)"
| "dot _ _ = InfNaN"

fun cross :: "Vector np \<Rightarrow> Vector np \<Rightarrow> Vector np" where
  "cross (Finite u) (Finite v) = Finite (vcross u v)"
| "cross _ _ = InfNaN"

definition scalar_triple_product :: "Vector np \<Rightarrow> Vector np \<Rightarrow> Vector np \<Rightarrow> real np" where
  "scalar_triple_product u v w = dot u (cross v w)"

fun vector_add :: "Vector np \<Rightarrow> Vector np \<Rightarrow> Vector np" where
  "vector_add (Finite u) (Finite v) = Finite (vadd u v)"
| "vector_add _ _ = InfNaN"

text \<open>\<open>c * v\<close> and \<open>v / c\<close> for a number \<open>c\<close>.\<close>

fun vector_mul :: "real np \<Rightarrow> Vector np \<Rightarrow> Vector np" where
  "vector_mul (Finite c) (Finite v) = Finite (vscale c v)"
| "vector_mul _ _ = InfNaN"

fun vector_div :: "Vector np \<Rightarrow> real np \<Rightarrow> Vector np" where
  "vector_div (Finite v) (Finite c) = (if c = 0 then InfNaN else Finite (vscale (1 / c) v))"
| "vector_div _ _ = InfNaN"

fun magnitude :: "Vector np \<Rightarrow> real np" where
  "magnitude (Finite v) = Finite (vector_length v)"
| "magnitude InfNaN = InfNaN"

definition unit_vector :: "Vector np \<Rightarrow> Vector np" where
  "unit_vector v = vector_div v (magnitude v)"

subsection \<open>The bonds of an atom\<close>

text \<open>
  Modelled from the spec: the class \<open>Bonds\<close> is not among the sources. The spec's
  BondSet supplies the ordered bond vectors of the atom and, for POAV2, the pairwise bond
  angles with the index correspondence between angles and bond pairs: for three bonds
  the pairs are (1,2), (1,3), (2,3) and \<open>angles\<close> lists their angles in this order.
\<close>

record Bonds =
  vectors :: "Vector list"
  angles :: "real list"

subsection \<open>Class \<open>POAV\<close>\<close>

text \<open>
  The attributes \<open>_v1\<close>, \<open>_T\<close>, \<open>_sigma_pi_angles\<close>, ... of the source are the fields
  \<open>priv_v1\<close>, \<open>priv_T\<close>, \<open>priv_sigma_pi_angles\<close>, ...; an angle array is \<open>None\<close> until
  its setter has stored a list.
\<close>

record POAV =
  bonds :: Bonds
  b1 :: Vector
  b2 :: Vector
  b3 :: Vector
  priv_v1 :: "Vector np"
  priv_v2 :: "Vector np"
  priv_v3 :: "Vector np"
  priv_T :: "real np"
  priv_pyramidalization_angles :: "real list option"
  priv_sigma_pi_angles :: "real list option"
  priv_misalignment_angles :: "real list option"

text \<open>A \<open>POAV2\<close> object has the attributes of a \<open>POAV\<close> and the three cosines.\<close>

record POAV2 = POAV +
  cosa12 :: real
  cosa13 :: real
  cosa23 :: real

text \<open>
  The Python values that reach a setter. \<open>POAV1\<close> and \<open>POAVR\<close> add no attribute to
  \<open>POAV\<close>, so the class of an object is the constructor that wraps its record.
\<close>

datatype pyobj =
    PyNone
  | PyFloat real
  | PyList "real list"
  | PyTuple "real list"
  | PyArray "real list"
  | PyPOAV POAV
  | PyPOAV1 POAV
  | PyPOAV2 POAV2
  | PyPOAVR POAV

text \<open>\<open>POAV.__init__\<close>: \<open>self.bonds[i]\<close> raises \<open>IndexError\<close> with fewer than three bonds.\<close>

definition POAV_init :: "Bonds \<Rightarrow> py_error + POAV" where
  "POAV_init sigma_bonds =
     (case vectors sigma_bonds of
        x1 # x2 # x3 # _ \<Rightarrow>
          Inr \<lparr> bonds = sigma_bonds, b1 = x1, b2 = x2, b3 = x3,
                priv_v1 = Finite x1, priv_v2 = Finite x2, priv_v3 = Finite x3,
                priv_T = np_div (scalar_triple_product (unit_vector (Finite x1))
                                   (unit_vector (Finite x2)) (unit_vector (Finite x3)))
                                (Finite 6),
                priv_pyramidalization_angles = None,
                priv_sigma_pi_angles = None,
                priv_misalignment_angles = None \<rparr>
      | _ \<Rightarrow> Inl IndexError)"

definition POAV_v1 :: "'a POAV_scheme \<Rightarrow> Vector np" where
  "POAV_v1 self = priv_v1 self"

definition POAV_v2 :: "'a POAV_scheme \<Rightarrow> Vector np" where
  "POAV_v2 self = priv_v2 self"

definition POAV_v3 :: "'a POAV_scheme \<Rightarrow> Vector np" where
  "POAV_v3 self = priv_v3 self"

definition POAV_t :: "'a POAV_scheme \<Rightarrow> real np" where
  "POAV_t self = scalar_triple_product (POAV_v1 self) (POAV_v2 self) (POAV_v3 self)"

definition POAV_reciprocal_v1 :: "'a POAV_scheme \<Rightarrow> Vector np" where
  "POAV_reciprocal_v1 self = cross (POAV_v2 self) (POAV_v3 self)"

definition POAV_reciprocal_v2 :: "'a POAV_scheme \<Rightarrow> Vector np" where
  "POAV_reciprocal_v2 self = cross (POAV_v3 self) (POAV_v1 self)"

definition POAV_reciprocal_v3 :: "'a POAV_scheme \<Rightarrow> Vector np" where
  "POAV_reciprocal_v3 self = cross (POAV_v1 self) (POAV_v2 self)"

text \<open>\<open>POAV.vpi\<close>: the sum of the reciprocal vectors divided by \<open>t\<close>, with no test of \<open>t\<close>.\<close>

definition POAV_vpi :: "'a POAV_scheme \<Rightarrow> Vector np" where
  "POAV_vpi self =
     vector_div (vector_add (vector_add (POAV_reciprocal_v1 self) (POAV_reciprocal_v2 self))
                            (POAV_reciprocal_v3 self))
                (POAV_t self)"

definition POAV_Vpi :: "'a POAV_scheme \<Rightarrow> Vector np" where
  "POAV_Vpi self = unit_vector (POAV_vpi self)"

definition POAV_V1 :: "'a POAV_scheme \<Rightarrow> Vector np" where
  "POAV_V1 self = unit_vector (Finite (b1 self))"

definition POAV_V2 :: "'a POAV_scheme \<Rightarrow> Vector np" where
  "POAV_V2 self = unit_vector (Finite (b2 self))"

definition POAV_V3 :: "'a POAV_scheme \<Rightarrow> Vector np" where
  "POAV_V3 self = unit_vector (Finite (b3 self))"

definition POAV_R1 :: "'a POAV_scheme \<Rightarrow> real np" where
  "POAV_R1 self = Finite (vector_length (b1 self))"

definition POAV_R2 :: "'a POAV_scheme \<Rightarrow> real np" where
  "POAV_R2 self = Finite (vector_length (b2 self))"

definition POAV_R3 :: "'a POAV_scheme \<Rightarrow> real np" where
  "POAV_R3 self = Finite (vector_length (b3 self))"

definition POAV_T :: "'a POAV_scheme \<Rightarrow> real np" where
  "POAV_T self = priv_T self"

definition POAV_A :: "'a POAV_scheme \<Rightarrow> real np" where
  "POAV_A self = magnitude (POAV_vpi self)"

definition POAV_H :: "'a POAV_scheme \<Rightarrow> real np" where
  "POAV_H self = np_div (np_mul (Finite 3) (POAV_T self)) (POAV_A self)"

text \<open>The setters: \<open>isinstance(value, list)\<close> is the only test.\<close>

definition POAV_set_sigma_pi_angles :: "'a POAV_scheme \<Rightarrow> pyobj \<Rightarrow> py_error + 'a POAV_scheme" where
  "POAV_set_sigma_pi_angles self v =
     (case v of PyList xs \<Rightarrow> Inr (self\<lparr>priv_sigma_pi_angles := Some xs\<rparr>)
              | _ \<Rightarrow> Inl TypeError)"

definition POAV_set_pyramidalization_angles ::
    "'a POAV_scheme \<Rightarrow> pyobj \<Rightarrow> py_error + 'a POAV_scheme" where
  "POAV_set_pyramidalization_angles self v =
     (case v of PyList xs \<Rightarrow> Inr (self\<lparr>priv_pyramidalization_angles := Some xs\<rparr>)
              | _ \<Rightarrow> Inl TypeError)"

definition POAV_set_misalignment_angles ::
    "'a POAV_scheme \<Rightarrow> pyobj \<Rightarrow> py_error + 'a POAV_scheme" where
  "POAV_set_misalignment_angles self v =
     (case v of PyList xs \<Rightarrow> Inr (self\<lparr>priv_misalignment_angles := Some xs\<rparr>)
              | _ \<Rightarrow> Inl TypeError)"

definition POAV_sigma_pi_angles :: "'a POAV_scheme \<Rightarrow> real list option" where
  "POAV_sigma_pi_angles self = priv_sigma_pi_angles self"

definition POAV_pyramidalization_angles :: "'a POAV_scheme \<Rightarrow> real list option" where
  "POAV_pyramidalization_angles self = priv_pyramidalization_angles self"

definition POAV_misalignment_angles :: "'a POAV_scheme \<Rightarrow> real list option" where
  "POAV_misalignment_angles self = priv_misalignment_angles self"

subsection \<open>\<open>POAV.todict\<close>\<close>

text \<open>
  A dictionary is the list of its items in insertion order. \<open>xs[i]\<close> raises \<open>TypeError\<close>
  on \<open>None\<close> and \<open>IndexError\<close> past the end; \<open>np.degrees(None)\<close> raises \<open>TypeError\<close>.
  The arguments of \<open>dict(...)\<close> are evaluated from left to right and the first exception
  ends the call.
\<close>

type_synonym py_dict = "(string \<times> real np) list"

definition subscript :: "real list option \<Rightarrow> nat \<Rightarrow> py_error + real np" where
  "subscript a i =
     (case a of None \<Rightarrow> Inl TypeError
              | Some xs \<Rightarrow> if i < length xs then Inr (Finite (xs ! i)) else Inl IndexError)"

definition py_degrees :: "real list option \<Rightarrow> py_error + real list option" where
  "py_degrees a = (case a of None \<Rightarrow> Inl TypeError | Some xs \<Rightarrow> Inr (Some (np_degrees xs)))"

fun sequence_results :: "(py_error + 'a) list \<Rightarrow> py_error + 'a list" where
  "sequence_results [] = Inr []"
| "sequence_results (r # rs) =
     (case r of
        Inl e \<Rightarrow> Inl e
      | Inr x \<Rightarrow> (case sequence_results rs of Inl e \<Rightarrow> Inl e | Inr xs \<Rightarrow> Inr (x # xs)))"

definition dict_update :: "py_dict \<Rightarrow> py_dict \<Rightarrow> py_dict" where
  "dict_update d items = fold (\<lambda>(k, v). AList.update k v) items d"

definition todict_keys :: "string list" where
  "todict_keys =
     [''bond1'', ''bond2'', ''bond3'',
      ''sigma_pi_angle1'', ''sigma_pi_angle2'', ''sigma_pi_angle3'',
      ''pyramidalization_angle1'', ''pyramidalization_angle2'', ''pyramidalization_angle3'',
      ''misalignment_angle1'', ''misalignment_angle2'', ''misalignment_angle3'',
      ''T'', ''H'', ''A'']"

text \<open>The three local variables of \<open>todict\<close> after the \<open>if rad2deg:\<close> block.\<close>

definition todict_arrays ::
    "'a POAV_scheme \<Rightarrow> bool \<Rightarrow>
       py_error + (real list option \<times> real list option \<times> real list option)" where
  "todict_arrays self rad2deg =
     (let sigma_pi_angles = POAV_sigma_pi_angles self;
          pyramidalization_angles = POAV_pyramidalization_angles self;
          misalignment_angles = POAV_misalignment_angles self
      in if rad2deg then
           (case py_degrees sigma_pi_angles of
              Inl e \<Rightarrow> Inl e
            | Inr s \<Rightarrow>
                (case py_degrees pyramidalization_angles of
                   Inl e \<Rightarrow> Inl e
                 | Inr p \<Rightarrow>
                     (case py_degrees misalignment_angles of
                        Inl e \<Rightarrow> Inl e
                      | Inr m \<Rightarrow> Inr (s, p, m))))
         else Inr (sigma_pi_angles, pyramidalization_angles, misalignment_angles))"

text \<open>
  \<open>POAV.todict\<close> returns the dictionary (or raises) and leaves the object as the second
  component: the method assigns to local variables only.
\<close>

definition POAV_todict :: "'a POAV_scheme \<Rightarrow> bool \<Rightarrow> (py_error + py_dict) \<times> 'a POAV_scheme" where
  "POAV_todict self rad2deg =
     ((case todict_arrays self rad2deg of
         Inl e \<Rightarrow> Inl e
       | Inr (sigma_pi_angles, pyramidalization_angles, misalignment_angles) \<Rightarrow>
           (case sequence_results
                   [Inr (Finite (vector_length (b1 self))),
                    Inr (Finite (vector_length (b2 self))),
                    Inr (Finite (vector_length (b3 self))),
                    subscript sigma_pi_angles 0,
                    subscript sigma_pi_angles 1,
                    subscript sigma_pi_angles 2,
                    subscript pyramidalization_angles 0,
                    subscript pyramidalization_angles 1,
                    subscript pyramidalization_angles 2,
                    subscript misalignment_angles 0,
                    subscript misalignment_angles 1,
                    subscript misalignment_angles 2,
                    Inr (POAV_T self), Inr (POAV_H self), Inr (POAV_A self)] of
              Inl e \<Rightarrow> Inl e
            | Inr values \<Rightarrow> Inr (zip todict_keys values))),
      self)"

subsection \<open>Class \<open>POAV1\<close>\<close>

definition POAV1_init :: "Bonds \<Rightarrow> py_error + POAV" where
  "POAV1_init sigma_bonds =
     (case POAV_init sigma_bonds of
        Inl e \<Rightarrow> Inl e
      | Inr self \<Rightarrow>
          Inr (self\<lparr>priv_v1 := POAV_V1 self, priv_v2 := POAV_V2 self, priv_v3 := POAV_V3 self\<rparr>))"

text \<open>\<open>POAV1.m\<close>: \<open>np.mean(None)\<close> raises \<open>TypeError\<close>.\<close>

definition POAV1_m :: "'a POAV_scheme \<Rightarrow> py_error + real np" where
  "POAV1_m self =
     (case POAV_sigma_pi_angles self of
        None \<Rightarrow> Inl TypeError
      | Some xs \<Rightarrow>
          (let c = np_cos (np_mean xs); cos2sigmapi = np_mul c c
           in Inr (np_div (np_mul (Finite 2) cos2sigmapi)
                          (np_sub (Finite 1) (np_mul (Finite 3) cos2sigmapi)))))"

definition POAV1_n :: "'a POAV_scheme \<Rightarrow> py_error + real np" where
  "POAV1_n self =
     (case POAV1_m self of
        Inl e \<Rightarrow> Inl e
      | Inr m \<Rightarrow> Inr (np_add (np_mul (Finite 3) m) (Finite 2)))"

definition POAV1_todict :: "'a POAV_scheme \<Rightarrow> bool \<Rightarrow> (py_error + py_dict) \<times> 'a POAV_scheme" where
  "POAV1_todict self rad2deg =
     (case POAV_todict self rad2deg of
        (Inl e, self') \<Rightarrow> (Inl e, self')
      | (Inr super_dict, self') \<Rightarrow>
          ((case POAV1_m self' of
              Inl e \<Rightarrow> Inl e
            | Inr m \<Rightarrow>
                (case POAV1_n self' of
                   Inl e \<Rightarrow> Inl e
                 | Inr n \<Rightarrow> Inr (dict_update super_dict [(''m'', m), (''n'', n)]))),
           self'))"

subsection \<open>Class \<open>POAV2\<close>\<close>

text \<open>
  \<open>POAV2.__init__\<close>. The loop pairs bond \<open>i\<close> with the angle of the pair that does not
  hold it (the mask \<open>np.in1d(self.bonds, pair, invert=True)\<close>): \<open>angles[2]\<close> for the
  first bond, \<open>angles[1]\<close> for the second, \<open>angles[0]\<close> for the third. A mask over the
  bonds whose length is not the number of angles raises \<open>IndexError\<close>.
\<close>

definition POAV2_init :: "Bonds \<Rightarrow> py_error + POAV2" where
  "POAV2_init sigma_bonds =
     (case POAV_init sigma_bonds of
        Inl e \<Rightarrow> Inl e
      | Inr self \<Rightarrow>
          (case (vectors sigma_bonds, angles sigma_bonds) of
             ([x1, x2, x3], [a0, a1, a2]) \<Rightarrow>
               Inr (POAV.extend
                      (self\<lparr>priv_v1 := vector_mul (Finite (cos a2)) (unit_vector (Finite x1)),
                            priv_v2 := vector_mul (Finite (cos a1)) (unit_vector (Finite x2)),
                            priv_v3 := vector_mul (Finite (cos a0)) (unit_vector (Finite x3)),
                            priv_T := np_mul (np_neg (Finite (1 * cos a0 * cos a1 * cos a2)))
                                             (POAV_T self)\<rparr>)
                      (POAV2.fields (cos a0) (cos a1) (cos a2)))
           | _ \<Rightarrow> Inl IndexError))"

definition POAV2_n1 :: "'a POAV2_scheme \<Rightarrow> real np" where
  "POAV2_n1 self = np_div (Finite (- cosa23 self)) (Finite (cosa12 self * cosa13 self))"

definition POAV2_n2 :: "'a POAV2_scheme \<Rightarrow> real np" where
  "POAV2_n2 self = np_div (Finite (- cosa13 self)) (Finite (cosa12 self * cosa23 self))"

definition POAV2_n3 :: "'a POAV2_scheme \<Rightarrow> real np" where
  "POAV2_n3 self = np_div (Finite (- cosa12 self)) (Finite (cosa23 self * cosa13 self))"

definition POAV2_m :: "'a POAV2_scheme \<Rightarrow> real np" where
  "POAV2_m self =
     (let s1 = np_div (Finite 1) (np_add (Finite 1) (POAV2_n1 self));
          s2 = np_div (Finite 1) (np_add (Finite 1) (POAV2_n2 self));
          s3 = np_div (Finite 1) (np_add (Finite 1) (POAV2_n3 self))
      in np_sub (np_div (Finite 1) (np_add (np_add (np_add (Finite 0) s1) s2) s3)) (Finite 1))"

definition POAV2_todict :: "'a POAV2_scheme \<Rightarrow> bool \<Rightarrow> (py_error + py_dict) \<times> 'a POAV2_scheme" where
  "POAV2_todict self rad2deg =
     (case POAV_todict self rad2deg of
        (Inl e, self') \<Rightarrow> (Inl e, self')
      | (Inr super_dict, self') \<Rightarrow>
          (Inr (dict_update super_dict
                  [(''m'', POAV2_m self'), (''n1'', POAV2_n1 self'),
                   (''n2'', POAV2_n2 self'), (''n3'', POAV2_n3 self')]),
           self'))"

subsection \<open>Class \<open>POAVR\<close>\<close>

definition POAVR_init :: "Bonds \<Rightarrow> py_error + POAV" where
  "POAVR_init sigma_bonds =
     (case POAV_init sigma_bonds of
        Inl e \<Rightarrow> Inl e
      | Inr self \<Rightarrow>
          Inr (self\<lparr>priv_v1 := vector_mul (POAV_R1 self) (POAV_V1 self),
                    priv_v2 := vector_mul (POAV_R2 self) (POAV_V2 self),
                    priv_v3 := vector_mul (POAV_R3 self) (POAV_V3 self),
                    priv_T := np_mul (np_mul (np_mul (POAV_R1 self) (POAV_R2 self)) (POAV_R3 self))
                                     (POAV_T self)\<rparr>))"

subsection \<open>\<open>POAVAtomMixin\<close> and \<open>POAVAtom\<close>\<close>

text \<open>
  The three slots of a \<open>POAVAtom\<close>. The attributes of the base class \<open>KDTAtom\<close> (not
  among the sources) play no part in the slots and are left out.
\<close>

record POAVAtom =
  priv_POAV1 :: pyobj
  priv_POAV2 :: pyobj
  priv_POAVR :: pyobj

definition POAVAtom_init :: POAVAtom where
  "POAVAtom_init = \<lparr> priv_POAV1 = PyNone, priv_POAV2 = PyNone, priv_POAVR = PyNone \<rparr>"

definition POAVAtomMixin_POAV1 :: "'a POAVAtom_scheme \<Rightarrow> pyobj" where
  "POAVAtomMixin_POAV1 self = priv_POAV1 self"

definition POAVAtomMixin_set_POAV1 :: "'a POAVAtom_scheme \<Rightarrow> pyobj \<Rightarrow> py_error + 'a POAVAtom_scheme" where
  "POAVAtomMixin_set_POAV1 self v =
     (case v of PyPOAV1 p \<Rightarrow> Inr (self\<lparr>priv_POAV1 := v\<rparr>) | _ \<Rightarrow> Inl TypeError)"

definition POAVAtomMixin_POAV2 :: "'a POAVAtom_scheme \<Rightarrow> pyobj" where
  "POAVAtomMixin_POAV2 self = priv_POAV2 self"

definition POAVAtomMixin_set_POAV2 :: "'a POAVAtom_scheme \<Rightarrow> pyobj \<Rightarrow> py_error + 'a POAVAtom_scheme" where
  "POAVAtomMixin_set_POAV2 self v =
     (case v of PyPOAV2 p \<Rightarrow> Inr (self\<lparr>priv_POAV2 := v\<rparr>) | _ \<Rightarrow> Inl TypeError)"

definition POAVAtomMixin_POAVR :: "'a POAVAtom_scheme \<Rightarrow> pyobj" where
  "POAVAtomMixin_POAVR self = priv_POAVR self"

definition POAVAtomMixin_set_POAVR :: "'a POAVAtom_scheme \<Rightarrow> pyobj \<Rightarrow> py_error + 'a POAVAtom_scheme" where
  "POAVAtomMixin_set_POAVR self v =
     (case v of PyPOAVR p \<Rightarrow> Inr (self\<lparr>priv_POAVR := v\<rparr>) | _ \<Rightarrow> Inl TypeError)"

subsection \<open>Reading the result of \<open>todict\<close>\<close>

text \<open>
  The nine keys of \<open>todict\<close> that hold angles, and the item of a dictionary in degrees
  that belongs to an item in radians: an angle value times \<open>180 / pi\<close>, any other item
  as it is.
\<close>

definition angle_keys :: "string list" where
  "angle_keys =
     [''sigma_pi_angle1'', ''sigma_pi_angle2'', ''sigma_pi_angle3'',
      ''pyramidalization_angle1'', ''pyramidalization_angle2'', ''pyramidalization_angle3'',
      ''misalignment_angle1'', ''misalignment_angle2'', ''misalignment_angle3'']"

definition degrees_item :: "string \<times> real np \<Rightarrow> string \<times> real np" where
  "degrees_item kv =
     (if fst kv \<in> set angle_keys then (fst kv, np_mul (snd kv) (Finite (180 / pi))) else kv)"

subsection \<open>Sample atoms\<close>

text \<open>
  Three orthogonal unit bonds; the same bonds with length 2; three bonds of a regular
  tetrahedron, whose pairwise angles have the cosine \<open>- 1 / 3\<close>; three bonds in the plane
  \<open>z = 0\<close>. The objects below are what the constructors return for them.
\<close>

definition ortho_bonds :: Bonds where
  "ortho_bonds = \<lparr> vectors = [Vector 1 0 0, Vector 0 1 0, Vector 0 0 1],
                    angles = [pi / 2, pi / 2, pi / 2] \<rparr>"

definition scaled_bonds :: Bonds where
  "scaled_bonds = \<lparr> vectors = [Vector 2 0 0, Vector 0 2 0, Vector 0 0 2],
                     angles = [pi / 2, pi / 2, pi / 2] \<rparr>"

definition tetra_bonds :: Bonds where
  "tetra_bonds = \<lparr> vectors = [Vector 1 1 1, Vector 1 (- 1) (- 1), Vector (- 1) 1 (- 1)],
                    angles = [arccos (- 1 / 3), arccos (- 1 / 3), arccos (- 1 / 3)] \<rparr>"

definition coplanar_bonds :: Bonds where
  "coplanar_bonds = \<lparr> vectors = [Vector 1 0 0, Vector 0 1 0, Vector (- 1) (- 1) 0],
                       angles = [pi / 2, 3 * pi / 4, 3 * pi / 4] \<rparr>"

definition ortho_poav :: POAV where
  "ortho_poav =
     \<lparr> bonds = ortho_bonds, b1 = Vector 1 0 0, b2 = Vector 0 1 0, b3 = Vector 0 0 1,
       priv_v1 = Finite (Vector 1 0 0), priv_v2 = Finite (Vector 0 1 0),
       priv_v3 = Finite (Vector 0 0 1), priv_T = Finite (1 / 6),
       priv_pyramidalization_angles = None, priv_sigma_pi_angles = None,
       priv_misalignment_angles = None \<rparr>"

definition ortho_poav2 :: POAV2 where
  "ortho_poav2 =
     \<lparr> bonds = ortho_bonds, b1 = Vector 1 0 0, b2 = Vector 0 1 0, b3 = Vector 0 0 1,
       priv_v1 = Finite (Vector 0 0 0), priv_v2 = Finite (Vector 0 0 0),
       priv_v3 = Finite (Vector 0 0 0), priv_T = Finite 0,
       priv_pyramidalization_angles = None, priv_sigma_pi_angles = None,
       priv_misalignment_angles = None, cosa12 = 0, cosa13 = 0, cosa23 = 0 \<rparr>"

definition coplanar_poav :: POAV where
  "coplanar_poav =
     \<lparr> bonds = coplanar_bonds, b1 = Vector 1 0 0, b2 = Vector 0 1 0, b3 = Vector (- 1) (- 1) 0,
       priv_v1 = Finite (Vector 1 0 0), priv_v2 = Finite (Vector 0 1 0),
       priv_v3 = Finite (Vector (- 1) (- 1) 0), priv_T = Finite 0,
       priv_pyramidalization_angles = None, priv_sigma_pi_angles = None,
       priv_misalignment_angles = None \<rparr>"

definition scaled_poav :: POAV where
  "scaled_poav =
     \<lparr> bonds = scaled_bonds, b1 = Vector 2 0 0, b2 = Vector 0 2 0, b3 = Vector 0 0 2,
       priv_v1 = Finite (Vector 2 0 0), priv_v2 = Finite (Vector 0 2 0),
       priv_v3 = Finite (Vector 0 0 2), priv_T = Finite (1 / 6),
       priv_pyramidalization_angles = None, priv_sigma_pi_angles = None,
       priv_misalignment_angles = None \<rparr>"

definition scaled_poav1 :: POAV where
  "scaled_poav1 =
     scaled_poav\<lparr> priv_v1 := Finite (Vector 1 0 0), priv_v2 := Finite (Vector 0 1 0),
                  priv_v3 := Finite (Vector 0 0 1) \<rparr>"

definition scaled_poavr :: POAV where
  "scaled_poavr = scaled_poav\<lparr> priv_T := Finite (4 / 3) \<rparr>"

text \<open>The orthogonal atom after its three angle arrays have been set.\<close>

definition with_angles :: "'a POAV_scheme \<Rightarrow> 'a POAV_scheme" where
  "with_angles p =
     p\<lparr> priv_sigma_pi_angles := Some [pi / 2, pi / 2, pi / 2],
        priv_pyramidalization_angles := Some [0, 0, 0],
        priv_misalignment_angles := Some [pi / 6, pi / 4, pi / 3] \<rparr>"

section \<open>Properties\<close>

subsection \<open>Auxiliary facts\<close>

lemma unit_vector_Finite:
  "vector_length b \<noteq> 0 \<Longrightarrow> unit_vector (Finite b) = Finite (vscale (1 / vector_length b) b)"
  by (simp add: unit_vector_def)

lemma stp_Finite:
  "scalar_triple_product (Finite u) (Finite v) (Finite w) = Finite (vdot u (vcross v w))"
  by (simp add: scalar_triple_product_def)


lemma stp_vscale:
  "vdot (vscale a u) (vcross (vscale b v) (vscale c w)) = a * b * c * vdot u (vcross v w)"
  by (cases u; cases v; cases w) (simp add: algebra_simps)

lemma vscale_one: "vscale 1 v = v"
  by (cases v) simp

lemma vscale_vscale: "vscale a (vscale b v) = vscale (a * b) v"
  by (cases v) (simp add: algebra_simps)

lemma vector_length_axis [simp]:
  "vector_length (Vector 1 0 0) = 1" "vector_length (Vector 0 1 0) = 1"
  "vector_length (Vector 0 0 1) = 1"
  "vector_length (Vector 2 0 0) = 2" "vector_length (Vector 0 2 0) = 2"
  "vector_length (Vector 0 0 2) = 2"
  by (simp_all add: vector_length_def)

lemma POAV_init_fields:
  assumes "POAV_init bs = Inr q"
  shows "\<exists>x1 x2 x3 rest. vectors bs = x1 # x2 # x3 # rest \<and> b1 q = x1 \<and> b2 q = x2 \<and> b3 q = x3
     \<and> priv_v1 q = Finite x1 \<and> priv_v2 q = Finite x2 \<and> priv_v3 q = Finite x3
     \<and> priv_T q = np_div (scalar_triple_product (unit_vector (Finite x1))
                                   (unit_vector (Finite x2)) (unit_vector (Finite x3))) (Finite 6)
     \<and> priv_sigma_pi_angles q = None \<and> priv_pyramidalization_angles q = None
     \<and> priv_misalignment_angles q = None"
  using assms by (auto simp: POAV_init_def split: list.splits)

subsection \<open>The sample atoms are what the constructors build\<close>

lemma ortho_init: "POAV_init ortho_bonds = Inr ortho_poav"
  by (simp add: POAV_init_def ortho_bonds_def ortho_poav_def unit_vector_def
      scalar_triple_product_def)

lemma ortho_init1: "POAV1_init ortho_bonds = Inr ortho_poav"
  by (simp add: POAV1_init_def ortho_init POAV_V1_def POAV_V2_def POAV_V3_def)
    (simp add: ortho_poav_def unit_vector_def)

lemma ortho_initR: "POAVR_init ortho_bonds = Inr ortho_poav"
  by (simp add: POAVR_init_def ortho_init POAV_V1_def POAV_V2_def POAV_V3_def
       POAV_R1_def POAV_R2_def POAV_R3_def POAV_T_def)
    (simp add: ortho_poav_def unit_vector_def)

lemma ortho_init2: "POAV2_init ortho_bonds = Inr ortho_poav2"
  by (simp add: POAV2_init_def ortho_init POAV_T_def)
    (simp add: ortho_bonds_def ortho_poav_def ortho_poav2_def unit_vector_def POAV_T_def
      POAV.defs POAV2.defs)

lemma scaled_init: "POAV_init scaled_bonds = Inr scaled_poav"
  by (simp add: POAV_init_def scaled_bonds_def scaled_poav_def unit_vector_def
      scalar_triple_product_def)

lemma scaled_init1: "POAV1_init scaled_bonds = Inr scaled_poav1"
  by (simp add: POAV1_init_def scaled_init POAV_V1_def POAV_V2_def POAV_V3_def)
    (simp add: scaled_poav_def scaled_poav1_def unit_vector_def)

lemma scaled_initR: "POAVR_init scaled_bonds = Inr scaled_poavr"
  by (simp add: POAVR_init_def scaled_init POAV_V1_def POAV_V2_def POAV_V3_def
       POAV_R1_def POAV_R2_def POAV_R3_def POAV_T_def)
    (simp add: scaled_poav_def scaled_poavr_def unit_vector_def)

lemma coplanar_init: "POAV_init coplanar_bonds = Inr coplanar_poav"
  by (simp add: POAV_init_def coplanar_bonds_def coplanar_poav_def unit_vector_def
      scalar_triple_product_def vector_length_def)

lemma tetra_init:
  "\<exists>q. POAV2_init tetra_bonds = Inr q \<and> cosa12 q = - 1 / 3 \<and> cosa13 q = - 1 / 3
       \<and> cosa23 q = - 1 / 3"
  by (simp add: POAV2_init_def POAV_init_def tetra_bonds_def POAV.defs POAV2.defs)

lemma with_angles_fields:
  "POAV_sigma_pi_angles (with_angles p) = Some [pi / 2, pi / 2, pi / 2]"
  "POAV_pyramidalization_angles (with_angles p) = Some [0, 0, 0]"
  "POAV_misalignment_angles (with_angles p) = Some [pi / 6, pi / 4, pi / 3]"
  by (simp_all add: with_angles_def POAV_sigma_pi_angles_def POAV_pyramidalization_angles_def
      POAV_misalignment_angles_def)

lemma with_angles_setters:
  "POAV_set_sigma_pi_angles ortho_poav (PyList [pi / 2, pi / 2, pi / 2]) = Inr s1 \<Longrightarrow>
   POAV_set_pyramidalization_angles s1 (PyList [0, 0, 0]) = Inr s2 \<Longrightarrow>
   POAV_set_misalignment_angles s2 (PyList [pi / 6, pi / 4, pi / 3]) = Inr s3 \<Longrightarrow>
   s3 = with_angles ortho_poav"
  by (auto simp: POAV_set_sigma_pi_angles_def POAV_set_pyramidalization_angles_def
      POAV_set_misalignment_angles_def with_angles_def)

subsection \<open>C1: the identity of the combined hybridization index\<close>

text \<open>
  C1. For every POAV2 instance whose denominators are all nonzero (the three cosine
  products under \<open>n1\<close>, \<open>n2\<close>, \<open>n3\<close>, the three sums \<open>1 + n1\<close>, \<open>1 + n2\<close>, \<open>1 + n3\<close> and
  the sum of the three reciprocals), the properties \<open>n1\<close>, \<open>n2\<close>, \<open>n3\<close> and \<open>m\<close> return
  finite values, \<open>1 + m\<close> is not zero, and
  \<open>1/(1+n1) + 1/(1+n2) + 1/(1+n3) = 1/(1+m)\<close>. The identity needs nothing of the angles
  but these denominators, so it holds for every valid angle triple that has them nonzero.
\<close>

theorem POAV2_m_identity:
  assumes "cosa12 p * cosa13 p \<noteq> 0" and "cosa12 p * cosa23 p \<noteq> 0"
    and "cosa23 p * cosa13 p \<noteq> 0"
    and "n1 = - cosa23 p / (cosa12 p * cosa13 p)"
    and "n2 = - cosa13 p / (cosa12 p * cosa23 p)"
    and "n3 = - cosa12 p / (cosa23 p * cosa13 p)"
    and "1 + n1 \<noteq> 0" and "1 + n2 \<noteq> 0" and "1 + n3 \<noteq> 0"
    and "1 / (1 + n1) + 1 / (1 + n2) + 1 / (1 + n3) \<noteq> 0"
  shows "POAV2_n1 p = Finite n1 \<and> POAV2_n2 p = Finite n2 \<and> POAV2_n3 p = Finite n3
       \<and> (\<exists>m. POAV2_m p = Finite m \<and> 1 + m \<noteq> 0
              \<and> 1 / (1 + n1) + 1 / (1 + n2) + 1 / (1 + n3) = 1 / (1 + m))"
proof -
  have n: "POAV2_n1 p = Finite n1" "POAV2_n2 p = Finite n2" "POAV2_n3 p = Finite n3"
    using assms(1-6) by (simp_all add: POAV2_n1_def POAV2_n2_def POAV2_n3_def)
  define s where "s = 1 / (1 + n1) + 1 / (1 + n2) + 1 / (1 + n3)"
  have s: "s \<noteq> 0" using assms(10) by (simp add: s_def)
  have m: "POAV2_m p = Finite (1 / s - 1)"
    using assms(7-9) s by (simp add: POAV2_m_def n s_def)
  have "1 + (1 / s - 1) \<noteq> 0" using s by simp
  moreover have "s = 1 / (1 + (1 / s - 1))" by simp
  ultimately show ?thesis using n m unfolding s_def by blast
qed

text \<open>
  Witness: the tetrahedral bonds, with the three cosines \<open>- 1 / 3\<close>: \<open>n1 = n2 = n3 = 3\<close>
  and \<open>m = 1 / 3\<close>.
\<close>

theorem POAV2_m_identity_witness:
  "\<exists>q. POAV2_init tetra_bonds = Inr q
      \<and> POAV2_n1 q = Finite 3 \<and> POAV2_n2 q = Finite 3 \<and> POAV2_n3 q = Finite 3
      \<and> POAV2_m q = Finite (1 / 3)
      \<and> (1::real) / (1 + 3) + 1 / (1 + 3) + 1 / (1 + 3) = 1 / (1 + 1 / 3)"
proof -
  from tetra_init obtain q where q: "POAV2_init tetra_bonds = Inr q"
    and c: "cosa12 q = - 1 / 3" "cosa13 q = - 1 / 3" "cosa23 q = - 1 / 3"
    by blast
  have n: "POAV2_n1 q = Finite 3 \<and> POAV2_n2 q = Finite 3 \<and> POAV2_n3 q = Finite 3
       \<and> (\<exists>m. POAV2_m q = Finite m \<and> 1 + m \<noteq> 0
              \<and> (1::real) / (1 + 3) + 1 / (1 + 3) + 1 / (1 + 3) = 1 / (1 + m))"
    by (rule POAV2_m_identity) (simp_all add: c)
  then have m: "POAV2_m q = Finite (1 / 3)"
    by (simp add: POAV2_m_def)
  from q n m show ?thesis by simp
qed

subsection \<open>C2: geometric degeneracy\<close>




subsection \<open>C3: reading before the angle arrays are set\<close>

lemma sequence_results_Inl:
  "Inl e \<in> set rs \<Longrightarrow> isl (sequence_results rs)"
  by (induction rs) (auto split: sum.splits)

lemma subscript_None: "subscript None i = Inl TypeError"
  by (simp add: subscript_def)

lemma todict_arrays_unset:
  assumes "POAV_sigma_pi_angles p = None \<or> POAV_pyramidalization_angles p = None
           \<or> POAV_misalignment_angles p = None"
  shows "todict_arrays p True = Inl TypeError"
  using assms by (auto simp: todict_arrays_def py_degrees_def split: option.splits)

lemma POAV_todict_unset:
  assumes "POAV_sigma_pi_angles p = None \<or> POAV_pyramidalization_angles p = None
           \<or> POAV_misalignment_angles p = None"
  shows "isl (fst (POAV_todict p r))"
proof (cases r)
  case True
  with todict_arrays_unset[OF assms] show ?thesis by (simp add: POAV_todict_def)
next
  case False
  let ?rs = "[Inr (Finite (vector_length (b1 p))),
              Inr (Finite (vector_length (b2 p))),
              Inr (Finite (vector_length (b3 p))),
              subscript (POAV_sigma_pi_angles p) 0,
              subscript (POAV_sigma_pi_angles p) 1,
              subscript (POAV_sigma_pi_angles p) 2,
              subscript (POAV_pyramidalization_angles p) 0,
              subscript (POAV_pyramidalization_angles p) 1,
              subscript (POAV_pyramidalization_angles p) 2,
              subscript (POAV_misalignment_angles p) 0,
              subscript (POAV_misalignment_angles p) 1,
              subscript (POAV_misalignment_angles p) 2,
              Inr (POAV_T p), Inr (POAV_H p), Inr (POAV_A p)]"
  from assms have "Inl TypeError \<in> set ?rs"
    by (auto simp: subscript_None)
  then have "isl (sequence_results ?rs)" by (rule sequence_results_Inl)
  with False show ?thesis
    by (simp add: POAV_todict_def todict_arrays_def split: sum.splits)
qed

lemma POAV_todict_sigma_unset:
  assumes "POAV_sigma_pi_angles p = None"
  shows "fst (POAV_todict p r) = Inl TypeError"
  using assms
  by (cases r) (simp_all add: POAV_todict_def todict_arrays_def py_degrees_def subscript_def)

lemma POAV1_todict_fst_Inl:
  "fst (POAV_todict p r) = Inl e \<Longrightarrow> fst (POAV1_todict p r) = Inl e"
  by (cases "POAV_todict p r") (simp add: POAV1_todict_def)

lemma POAV2_todict_fst_Inl:
  "fst (POAV_todict p r) = Inl e \<Longrightarrow> fst (POAV2_todict p r) = Inl e"
  by (cases "POAV_todict p r") (simp add: POAV2_todict_def)

lemma POAV_todict_degrees_unset:
  assumes "POAV_sigma_pi_angles p = None \<or> POAV_pyramidalization_angles p = None
           \<or> POAV_misalignment_angles p = None"
  shows "fst (POAV_todict p True) = Inl TypeError"
  using todict_arrays_unset[OF assms] by (simp add: POAV_todict_def)

lemma POAV_todict_sigma_short:
  assumes "POAV_sigma_pi_angles p = Some s" and "length s < 3"
  shows "fst (POAV_todict p False) = Inl IndexError"
  using assms by (auto simp: POAV_todict_def todict_arrays_def subscript_def)

lemma POAV_todict_pyr_unset:
  assumes "POAV_sigma_pi_angles p = Some s" and "3 \<le> length s"
    and "POAV_pyramidalization_angles p = None"
  shows "fst (POAV_todict p False) = Inl TypeError"
  using assms by (auto simp: POAV_todict_def todict_arrays_def subscript_def)

lemma POAV_todict_pyr_short:
  assumes "POAV_sigma_pi_angles p = Some s" and "3 \<le> length s"
    and "POAV_pyramidalization_angles p = Some y" and "length y < 3"
  shows "fst (POAV_todict p False) = Inl IndexError"
  using assms by (auto simp: POAV_todict_def todict_arrays_def subscript_def)

lemma POAV_todict_mis_unset:
  assumes "POAV_sigma_pi_angles p = Some s" and "3 \<le> length s"
    and "POAV_pyramidalization_angles p = Some y" and "3 \<le> length y"
    and "POAV_misalignment_angles p = None"
  shows "fst (POAV_todict p False) = Inl TypeError"
  using assms by (auto simp: POAV_todict_def todict_arrays_def subscript_def)

text \<open>
  C3 as stated fails. The setter stores the list \<open>[1, 2]\<close> as \<open>sigma_pi_angles\<close>; with
  the other two arrays still unset, \<open>todict()\<close> ends in \<open>IndexError\<close> at
  \<open>sigma_pi_angles[2]\<close>, before an unset array is read.
\<close>

theorem todict_unset_counterexample:
  "POAV_set_sigma_pi_angles ortho_poav (PyList [1, 2])
     = Inr (ortho_poav\<lparr>priv_sigma_pi_angles := Some [1, 2]\<rparr>)
   \<and> POAV_pyramidalization_angles (ortho_poav\<lparr>priv_sigma_pi_angles := Some [1, 2]\<rparr>) = None
   \<and> POAV_misalignment_angles (ortho_poav\<lparr>priv_sigma_pi_angles := Some [1, 2]\<rparr>) = None
   \<and> fst (POAV_todict (ortho_poav\<lparr>priv_sigma_pi_angles := Some [1, 2]\<rparr>) False)
       = Inl IndexError"
  by (simp add: POAV_set_sigma_pi_angles_def POAV_pyramidalization_angles_def
      POAV_misalignment_angles_def ortho_poav_def POAV_todict_def todict_arrays_def
      POAV_sigma_pi_angles_def subscript_def)

text \<open>
  C3, amended. For every POAV instance (\<open>p\<close>: a POAV or POAV1, \<open>q\<close>: a POAV2) on which
  one of the three angle arrays is still unset, \<open>todict\<close> raises. The exception is
  Python's \<open>TypeError\<close> (the spec's MissingDataError) with \<open>rad2deg=True\<close>, and with
  \<open>rad2deg=False\<close> when the first array that cannot be read, in the order
  \<open>sigma_pi_angles\<close>, \<open>pyramidalization_angles\<close>, \<open>misalignment_angles\<close>, is an unset
  one; it is \<open>IndexError\<close> when, with \<open>rad2deg=False\<close>, an array of fewer than three
  values comes first. The methods of POAV1 and POAV2 end in the exception of the base
  method. Reading \<open>POAV1.m\<close> or \<open>POAV1.n\<close> before \<open>sigma_pi_angles\<close> is set raises
  \<open>TypeError\<close>.
\<close>

theorem unset_angles_raise:
  fixes p :: "'a POAV_scheme" and q :: "'b POAV2_scheme"
  shows
  "(POAV_sigma_pi_angles p = None \<or> POAV_pyramidalization_angles p = None
      \<or> POAV_misalignment_angles p = None
    \<longrightarrow> fst (POAV_todict p True) = Inl TypeError
       \<and> (fst (POAV_todict p False) = Inl TypeError
          \<or> fst (POAV_todict p False) = Inl IndexError))
  \<and> (POAV_sigma_pi_angles p = None \<longrightarrow> fst (POAV_todict p False) = Inl TypeError)
  \<and> (POAV_sigma_pi_angles p = Some s \<and> length s < 3
    \<longrightarrow> fst (POAV_todict p False) = Inl IndexError)
  \<and> (POAV_sigma_pi_angles p = Some s \<and> 3 \<le> length s
      \<and> POAV_pyramidalization_angles p = None
    \<longrightarrow> fst (POAV_todict p False) = Inl TypeError)
  \<and> (POAV_sigma_pi_angles p = Some s \<and> 3 \<le> length s
      \<and> POAV_pyramidalization_angles p = Some y \<and> length y < 3
    \<longrightarrow> fst (POAV_todict p False) = Inl IndexError)
  \<and> (POAV_sigma_pi_angles p = Some s \<and> 3 \<le> length s
      \<and> POAV_pyramidalization_angles p = Some y \<and> 3 \<le> length y
      \<and> POAV_misalignment_angles p = None
    \<longrightarrow> fst (POAV_todict p False) = Inl TypeError)
  \<and> (\<forall>e. fst (POAV_todict p r) = Inl e \<longrightarrow> fst (POAV1_todict p r) = Inl e)
  \<and> (\<forall>e. fst (POAV_todict q r) = Inl e \<longrightarrow> fst (POAV2_todict q r) = Inl e)
  \<and> (POAV_sigma_pi_angles p = None
    \<longrightarrow> POAV1_m p = Inl TypeError \<and> POAV1_n p = Inl TypeError)"
proof -
  have a: "fst (POAV_todict p False) = Inl TypeError
          \<or> fst (POAV_todict p False) = Inl IndexError"
    if u: "POAV_sigma_pi_angles p = None \<or> POAV_pyramidalization_angles p = None
      \<or> POAV_misalignment_angles p = None"
  proof -
    from POAV_todict_unset[OF u, of False] obtain e where "fst (POAV_todict p False) = Inl e"
      by (cases "fst (POAV_todict p False)") auto
    then show ?thesis by (cases e) simp_all
  qed
  have c: "POAV1_m p = Inl TypeError \<and> POAV1_n p = Inl TypeError"
    if "POAV_sigma_pi_angles p = None"
    using that by (simp add: POAV1_m_def POAV1_n_def)
  show ?thesis
    using a c POAV_todict_degrees_unset[of p] POAV_todict_sigma_unset[of p False]
      POAV_todict_sigma_short[of p s] POAV_todict_pyr_unset[of p s]
      POAV_todict_pyr_short[of p s y] POAV_todict_mis_unset[of p s y]
      POAV1_todict_fst_Inl[of p r] POAV2_todict_fst_Inl[of q r]
    by blast
qed

text \<open>
  Witness: the orthogonal atom as built (no array set); after \<open>sigma_pi_angles\<close> has got
  three values; after it has got two; and after the first two arrays have been set.
\<close>

theorem unset_angles_raise_witness:
  "fst (POAV_todict ortho_poav True) = Inl TypeError
   \<and> fst (POAV_todict ortho_poav False) = Inl TypeError
   \<and> fst (POAV1_todict ortho_poav False) = Inl TypeError
   \<and> fst (POAV2_todict ortho_poav2 False) = Inl TypeError
   \<and> POAV1_m ortho_poav = Inl TypeError \<and> POAV1_n ortho_poav = Inl TypeError
   \<and> fst (POAV_todict (ortho_poav\<lparr>priv_sigma_pi_angles := Some [pi / 2, pi / 2, pi / 2]\<rparr>)
            False) = Inl TypeError
   \<and> fst (POAV_todict (ortho_poav\<lparr>priv_sigma_pi_angles := Some [1, 2]\<rparr>) False)
       = Inl IndexError
   \<and> fst (POAV_todict (ortho_poav\<lparr>priv_sigma_pi_angles := Some [pi / 2, pi / 2, pi / 2],
                                    priv_pyramidalization_angles := Some [0]\<rparr>) False)
       = Inl IndexError
   \<and> fst (POAV_todict (ortho_poav\<lparr>priv_sigma_pi_angles := Some [pi / 2, pi / 2, pi / 2],
                                    priv_pyramidalization_angles := Some [0, 0, 0]\<rparr>) False)
       = Inl TypeError"
proof -
  note f = POAV_sigma_pi_angles_def POAV_pyramidalization_angles_def
    POAV_misalignment_angles_def ortho_poav_def ortho_poav2_def
  have 1: "fst (POAV_todict ortho_poav True) = Inl TypeError
      \<and> fst (POAV_todict ortho_poav False) = Inl TypeError
      \<and> fst (POAV1_todict ortho_poav False) = Inl TypeError
      \<and> POAV1_m ortho_poav = Inl TypeError \<and> POAV1_n ortho_poav = Inl TypeError"
    using unset_angles_raise[where p = ortho_poav and q = ortho_poav2 and r = False]
    by (simp add: f)
  have "fst (POAV_todict ortho_poav2 False) = Inl TypeError"
    using unset_angles_raise[where p = ortho_poav2 and q = ortho_poav2 and r = False]
    by (simp add: f)
  then have 2: "fst (POAV2_todict ortho_poav2 False) = Inl TypeError"
    using unset_angles_raise[where p = ortho_poav and q = ortho_poav2 and r = False]
    by blast
  have 3: "fst (POAV_todict (ortho_poav\<lparr>priv_sigma_pi_angles := Some [pi / 2, pi / 2, pi / 2]\<rparr>)
            False) = Inl TypeError"
    using unset_angles_raise[where
        p = "ortho_poav\<lparr>priv_sigma_pi_angles := Some [pi / 2, pi / 2, pi / 2]\<rparr>"
        and q = ortho_poav2 and s = "[pi / 2, pi / 2, pi / 2]"]
    by (simp add: f)
  have 4: "fst (POAV_todict (ortho_poav\<lparr>priv_sigma_pi_angles := Some [1, 2]\<rparr>) False)
       = Inl IndexError"
    using unset_angles_raise[where p = "ortho_poav\<lparr>priv_sigma_pi_angles := Some [1, 2]\<rparr>"
        and q = ortho_poav2 and s = "[1, 2]"]
    by (simp add: f)
  have 5: "fst (POAV_todict (ortho_poav\<lparr>priv_sigma_pi_angles := Some [pi / 2, pi / 2, pi / 2],
                                    priv_pyramidalization_angles := Some [0]\<rparr>) False)
       = Inl IndexError"
    using unset_angles_raise[where
        p = "ortho_poav\<lparr>priv_sigma_pi_angles := Some [pi / 2, pi / 2, pi / 2],
                        priv_pyramidalization_angles := Some [0]\<rparr>"
        and q = ortho_poav2 and s = "[pi / 2, pi / 2, pi / 2]" and y = "[0]"]
    by (simp add: f)
  have 6: "fst (POAV_todict (ortho_poav\<lparr>priv_sigma_pi_angles := Some [pi / 2, pi / 2, pi / 2],
                                    priv_pyramidalization_angles := Some [0, 0, 0]\<rparr>) False)
       = Inl TypeError"
    using unset_angles_raise[where
        p = "ortho_poav\<lparr>priv_sigma_pi_angles := Some [pi / 2, pi / 2, pi / 2],
                        priv_pyramidalization_angles := Some [0, 0, 0]\<rparr>"
        and q = ortho_poav2 and s = "[pi / 2, pi / 2, pi / 2]" and y = "[0, 0, 0]"]
    by (simp add: f)
  from 1 2 3 4 5 6 show ?thesis by blast
qed

subsection \<open>C4: the setters of the angle arrays\<close>

text \<open>
  C4 as stated fails. The setters test \<open>isinstance(value, list)\<close> and nothing else: a
  list of two elements is stored, and a tuple of three elements is refused.
\<close>

theorem setter_length_counterexample:
  "POAV_set_sigma_pi_angles ortho_poav (PyList [1, 2])
     = Inr (ortho_poav\<lparr>priv_sigma_pi_angles := Some [1, 2]\<rparr>)
   \<and> POAV_set_sigma_pi_angles ortho_poav (PyTuple [1, 2, 3]) = Inl TypeError"
  by (simp add: POAV_set_sigma_pi_angles_def)

text \<open>
  C4, amended. For every POAV instance, assigning a list, of any length, to
  \<open>sigma_pi_angles\<close>, \<open>pyramidalization_angles\<close> or \<open>misalignment_angles\<close> succeeds and
  stores the list; assigning a value that is not a list raises \<open>TypeError\<close> (the spec's
  ShapeError), whatever its length.
\<close>

theorem setters_check_list_only:
  "POAV_set_sigma_pi_angles self (PyList xs) = Inr (self\<lparr>priv_sigma_pi_angles := Some xs\<rparr>)
   \<and> POAV_set_pyramidalization_angles self (PyList xs)
       = Inr (self\<lparr>priv_pyramidalization_angles := Some xs\<rparr>)
   \<and> POAV_set_misalignment_angles self (PyList xs)
       = Inr (self\<lparr>priv_misalignment_angles := Some xs\<rparr>)
   \<and> ((\<forall>ys. v \<noteq> PyList ys) \<longrightarrow>
        POAV_set_sigma_pi_angles self v = Inl TypeError
      \<and> POAV_set_pyramidalization_angles self v = Inl TypeError
      \<and> POAV_set_misalignment_angles self v = Inl TypeError)"
  by (cases v) (simp_all add: POAV_set_sigma_pi_angles_def POAV_set_pyramidalization_angles_def
      POAV_set_misalignment_angles_def)

theorem setters_check_list_only_witness:
  "POAV_set_misalignment_angles ortho_poav (PyList [1, 2, 3, 4])
     = Inr (ortho_poav\<lparr>priv_misalignment_angles := Some [1, 2, 3, 4]\<rparr>)
   \<and> POAV_set_sigma_pi_angles ortho_poav (PyList [pi / 2, pi / 2, pi / 2])
     = Inr (ortho_poav\<lparr>priv_sigma_pi_angles := Some [pi / 2, pi / 2, pi / 2]\<rparr>)
   \<and> POAV_set_pyramidalization_angles ortho_poav (PyArray [1, 2, 3]) = Inl TypeError
   \<and> POAV_set_sigma_pi_angles ortho_poav (PyFloat 1) = Inl TypeError"
  using setters_check_list_only[where self = ortho_poav and xs = "[1, 2, 3, 4]" and v = "PyArray [1, 2, 3]"]
    setters_check_list_only[where self = ortho_poav and xs = "[pi / 2, pi / 2, pi / 2]" and v = "PyFloat 1"]
  by simp

subsection \<open>C5: the hybridization indices of POAV1\<close>

lemma POAV1_m_three:
  assumes "POAV_sigma_pi_angles p = Some [a1, a2, a3]"
  shows "POAV1_m p = Inr (np_div (Finite (2 * (cos ((a1 + a2 + a3) / 3))\<^sup>2))
                                 (Finite (1 - 3 * (cos ((a1 + a2 + a3) / 3))\<^sup>2)))"
  using assms by (simp add: POAV1_m_def np_mean_def Let_def power2_eq_square add.assoc)

lemma magic_angle:
  "1 - 3 * (cos ((arccos (1 / sqrt 3) + arccos (1 / sqrt 3) + arccos (1 / sqrt 3)) / 3))\<^sup>2 = 0"
proof -
  have "1 \<le> sqrt 3" by simp
  then have "1 / sqrt 3 \<le> 1" by simp
  moreover have "- 1 \<le> 1 / sqrt 3" by (rule order_trans[of _ 0]) simp_all
  ultimately have "cos (arccos (1 / sqrt 3)) = 1 / sqrt 3"
    by (intro cos_arccos)
  then show ?thesis by (simp add: power2_eq_square)
qed

text \<open>
  C5. For every POAV1 instance whose \<open>sigma_pi_angles\<close> hold the three angles \<open>a1\<close>,
  \<open>a2\<close>, \<open>a3\<close>, with \<open>c\<close> the cosine of their mean: \<open>m\<close> is \<open>2 c\<^sup>2 / (1 - 3 c\<^sup>2)\<close> and
  \<open>n\<close> is \<open>3 m + 2\<close>; where the denominator \<open>1 - 3 c\<^sup>2\<close> is zero the quotient is the
  \<open>inf\<close>/\<open>nan\<close> of the division by zero. With the three angles \<open>pi / 2\<close>, \<open>m\<close> is \<open>0\<close> and
  \<open>n\<close> is \<open>2\<close>.
\<close>

theorem POAV1_m_n_formula:
  assumes "POAV_sigma_pi_angles p = Some [a1, a2, a3]"
    and "c = cos ((a1 + a2 + a3) / 3)"
  shows "(1 - 3 * c\<^sup>2 \<noteq> 0 \<longrightarrow>
            POAV1_m p = Inr (Finite (2 * c\<^sup>2 / (1 - 3 * c\<^sup>2)))
          \<and> POAV1_n p = Inr (Finite (3 * (2 * c\<^sup>2 / (1 - 3 * c\<^sup>2)) + 2)))
       \<and> (1 - 3 * c\<^sup>2 = 0 \<longrightarrow> POAV1_m p = Inr InfNaN \<and> POAV1_n p = Inr InfNaN)
       \<and> (a1 = pi / 2 \<and> a2 = pi / 2 \<and> a3 = pi / 2 \<longrightarrow>
            POAV1_m p = Inr (Finite 0) \<and> POAV1_n p = Inr (Finite 2))"
proof -
  note m = POAV1_m_three[OF assms(1), folded assms(2)]
  have 1: "1 - 3 * c\<^sup>2 \<noteq> 0 \<longrightarrow>
            POAV1_m p = Inr (Finite (2 * c\<^sup>2 / (1 - 3 * c\<^sup>2)))
          \<and> POAV1_n p = Inr (Finite (3 * (2 * c\<^sup>2 / (1 - 3 * c\<^sup>2)) + 2))"
    by (simp add: m POAV1_n_def)
  have 2: "1 - 3 * c\<^sup>2 = 0 \<longrightarrow> POAV1_m p = Inr InfNaN \<and> POAV1_n p = Inr InfNaN"
    by (simp add: m POAV1_n_def)
  have 3: "a1 = pi / 2 \<and> a2 = pi / 2 \<and> a3 = pi / 2 \<longrightarrow>
            POAV1_m p = Inr (Finite 0) \<and> POAV1_n p = Inr (Finite 2)"
  proof
    assume a: "a1 = pi / 2 \<and> a2 = pi / 2 \<and> a3 = pi / 2"
    then have "(a1 + a2 + a3) / 3 = pi / 2" by simp
    with assms(2) have "c = 0" by (simp add: cos_pi_half)
    then show "POAV1_m p = Inr (Finite 0) \<and> POAV1_n p = Inr (Finite 2)"
      by (simp add: m POAV1_n_def)
  qed
  from 1 2 3 show ?thesis by blast
qed

text \<open>
  Witness: the POAV1 of the orthogonal bonds with the three sigma-pi angles \<open>pi / 2\<close>
  (\<open>m = 0\<close>, \<open>n = 2\<close>), and with the three angles \<open>arccos (1 / sqrt 3)\<close>, where the
  denominator is zero.
\<close>

theorem POAV1_m_n_formula_witness:
  "POAV1_init ortho_bonds = Inr ortho_poav
   \<and> POAV1_m (with_angles ortho_poav) = Inr (Finite 0)
   \<and> POAV1_n (with_angles ortho_poav) = Inr (Finite 2)
   \<and> POAV1_m (ortho_poav\<lparr>priv_sigma_pi_angles :=
        Some [arccos (1 / sqrt 3), arccos (1 / sqrt 3), arccos (1 / sqrt 3)]\<rparr>) = Inr InfNaN"
proof -
  have "POAV1_m (with_angles ortho_poav) = Inr (Finite 0)
      \<and> POAV1_n (with_angles ortho_poav) = Inr (Finite 2)"
    using POAV1_m_n_formula[where p = "with_angles ortho_poav", OF with_angles_fields(1) refl] by simp
  moreover have "POAV1_m (ortho_poav\<lparr>priv_sigma_pi_angles :=
        Some [arccos (1 / sqrt 3), arccos (1 / sqrt 3), arccos (1 / sqrt 3)]\<rparr>) = Inr InfNaN"
    using POAV1_m_n_formula[where p = "ortho_poav\<lparr>priv_sigma_pi_angles :=
        Some [arccos (1 / sqrt 3), arccos (1 / sqrt 3), arccos (1 / sqrt 3)]\<rparr>"
        and ?a1.0 = "arccos (1 / sqrt 3)" and ?a2.0 = "arccos (1 / sqrt 3)"
        and ?a3.0 = "arccos (1 / sqrt 3)", OF _ refl]
      magic_angle
    by (simp add: POAV_sigma_pi_angles_def)
  ultimately show ?thesis using ortho_init1 by simp
qed

subsection \<open>C6: the stored T of POAVR\<close>

lemma POAVR_init_fields:
  assumes "POAVR_init bs = Inr p"
  shows "\<exists>q. POAV_init bs = Inr q \<and> b1 p = b1 q \<and> b2 p = b2 q \<and> b3 p = b3 q
      \<and> priv_T q = np_div (scalar_triple_product (POAV_V1 p) (POAV_V2 p) (POAV_V3 p)) (Finite 6)
      \<and> priv_T p = np_mul (np_mul (np_mul (POAV_R1 p) (POAV_R2 p)) (POAV_R3 p)) (priv_T q)"
proof -
  from assms obtain q where q: "POAV_init bs = Inr q"
    by (auto simp: POAVR_init_def split: sum.splits)
  from assms q have p: "p = q\<lparr>priv_v1 := vector_mul (POAV_R1 q) (POAV_V1 q),
                    priv_v2 := vector_mul (POAV_R2 q) (POAV_V2 q),
                    priv_v3 := vector_mul (POAV_R3 q) (POAV_V3 q),
                    priv_T := np_mul (np_mul (np_mul (POAV_R1 q) (POAV_R2 q)) (POAV_R3 q))
                                     (POAV_T q)\<rparr>"
    by (simp add: POAVR_init_def)
  from POAV_init_fields[OF q] have
    "priv_T q = np_div (scalar_triple_product (unit_vector (Finite (b1 q)))
                          (unit_vector (Finite (b2 q))) (unit_vector (Finite (b3 q)))) (Finite 6)"
    by auto
  with q show ?thesis
    by (simp add: p POAV_V1_def POAV_V2_def POAV_V3_def POAV_R1_def POAV_R2_def POAV_R3_def
        POAV_T_def)
qed

text \<open>
  C6. For every POAVR instance \<open>p\<close>, with \<open>T0\<close> the scalar triple product of the three
  unit bond vectors divided by 6: the stored \<open>T\<close> of \<open>p\<close> is \<open>R1 * R2 * R3 * T0\<close>, the
  product of the three bond lengths and \<open>T0\<close>; \<open>T0\<close> is the stored \<open>T\<close> of the base POAV
  of the same bonds; when the three bonds are not zero, \<open>T0\<close> is the finite number
  \<open>u1 \<cdot> (u2 \<times> u3) / 6\<close> for the bonds \<open>u1\<close>, \<open>u2\<close>, \<open>u3\<close> scaled to length 1; and with
  \<open>R1 = R2 = R3 = 1\<close> the stored \<open>T\<close> is \<open>T0\<close>.
\<close>

theorem POAVR_T_scaled:
  assumes "POAVR_init bs = Inr p"
    and "T0 = np_div (scalar_triple_product (POAV_V1 p) (POAV_V2 p) (POAV_V3 p)) (Finite 6)"
  shows "POAV_T p = np_mul (np_mul (np_mul (POAV_R1 p) (POAV_R2 p)) (POAV_R3 p)) T0
       \<and> (\<exists>q. POAV_init bs = Inr q \<and> POAV_T q = T0)
       \<and> (\<forall>x. T0 = Finite x \<longrightarrow>
             POAV_T p = Finite (vector_length (b1 p) * vector_length (b2 p)
                                  * vector_length (b3 p) * x))
       \<and> (vector_length (b1 p) \<noteq> 0 \<and> vector_length (b2 p) \<noteq> 0 \<and> vector_length (b3 p) \<noteq> 0
            \<longrightarrow> T0 = Finite (vdot (vscale (1 / vector_length (b1 p)) (b1 p))
                                (vcross (vscale (1 / vector_length (b2 p)) (b2 p))
                                        (vscale (1 / vector_length (b3 p)) (b3 p))) / 6))
       \<and> (POAV_R1 p = Finite 1 \<and> POAV_R2 p = Finite 1 \<and> POAV_R3 p = Finite 1
            \<longrightarrow> POAV_T p = T0)"
proof -
  from POAVR_init_fields[OF assms(1)] obtain q where q: "POAV_init bs = Inr q"
    and Tq: "priv_T q = T0"
    and Tp: "priv_T p = np_mul (np_mul (np_mul (POAV_R1 p) (POAV_R2 p)) (POAV_R3 p)) (priv_T q)"
    using assms(2) by auto
  have 1: "POAV_T p = np_mul (np_mul (np_mul (POAV_R1 p) (POAV_R2 p)) (POAV_R3 p)) T0"
    using Tp Tq by (simp add: POAV_T_def)
  have 2: "\<exists>q. POAV_init bs = Inr q \<and> POAV_T q = T0"
    using q Tq by (auto simp: POAV_T_def)
  have 3: "\<forall>x. T0 = Finite x \<longrightarrow>
             POAV_T p = Finite (vector_length (b1 p) * vector_length (b2 p)
                                  * vector_length (b3 p) * x)"
    by (simp add: 1 POAV_R1_def POAV_R2_def POAV_R3_def)
  have 4: "vector_length (b1 p) \<noteq> 0 \<and> vector_length (b2 p) \<noteq> 0 \<and> vector_length (b3 p) \<noteq> 0
            \<longrightarrow> T0 = Finite (vdot (vscale (1 / vector_length (b1 p)) (b1 p))
                                (vcross (vscale (1 / vector_length (b2 p)) (b2 p))
                                        (vscale (1 / vector_length (b3 p)) (b3 p))) / 6)"
    by (simp add: assms(2) POAV_V1_def POAV_V2_def POAV_V3_def unit_vector_Finite stp_Finite)
  have 5: "POAV_R1 p = Finite 1 \<and> POAV_R2 p = Finite 1 \<and> POAV_R3 p = Finite 1
             \<longrightarrow> POAV_T p = T0"
    by (cases T0) (simp_all add: 1)
  from 1 2 3 4 5 show ?thesis by blast
qed

text \<open>
  Witness: bonds of length 2 (\<open>T0 = 1/6\<close>, \<open>T = 2 * 2 * 2 * (1/6)\<close>), bonds of length 1
  (\<open>T = T0 = 1/6\<close>), and the coplanar bonds (\<open>T0 = 0\<close>, \<open>T = 0\<close>).
\<close>

theorem POAVR_T_scaled_witness:
  "POAVR_init scaled_bonds = Inr scaled_poavr
   \<and> POAV_T scaled_poavr = Finite (2 * 2 * 2 * (1 / 6))
   \<and> POAVR_init ortho_bonds = Inr ortho_poav
   \<and> POAV_R1 ortho_poav = Finite 1 \<and> POAV_R2 ortho_poav = Finite 1
   \<and> POAV_R3 ortho_poav = Finite 1 \<and> POAV_T ortho_poav = Finite (1 / 6)
   \<and> (\<exists>p. POAVR_init coplanar_bonds = Inr p \<and> POAV_T p = Finite 0)"
proof -
  have u: "unit_vector (Finite (Vector 2 0 0)) = Finite (Vector 1 0 0)"
    "unit_vector (Finite (Vector 0 2 0)) = Finite (Vector 0 1 0)"
    "unit_vector (Finite (Vector 0 0 2)) = Finite (Vector 0 0 1)"
    "unit_vector (Finite (Vector 1 0 0)) = Finite (Vector 1 0 0)"
    "unit_vector (Finite (Vector 0 1 0)) = Finite (Vector 0 1 0)"
    "unit_vector (Finite (Vector 0 0 1)) = Finite (Vector 0 0 1)"
    by (simp_all add: unit_vector_def)
  have 1: "POAV_T scaled_poavr = Finite (2 * 2 * 2 * (1 / 6))"
    using POAVR_T_scaled[OF scaled_initR refl]
    by (simp add: POAV_V1_def POAV_V2_def POAV_V3_def POAV_R1_def POAV_R2_def POAV_R3_def
        scaled_poavr_def scaled_poav_def u stp_Finite)
  have 2: "POAV_R1 ortho_poav = Finite 1 \<and> POAV_R2 ortho_poav = Finite 1
      \<and> POAV_R3 ortho_poav = Finite 1"
    by (simp add: POAV_R1_def POAV_R2_def POAV_R3_def ortho_poav_def)
  have 3: "POAV_T ortho_poav = Finite (1 / 6)"
    using POAVR_T_scaled[OF ortho_initR refl] 2
    by (simp add: POAV_V1_def POAV_V2_def POAV_V3_def ortho_poav_def u stp_Finite)
  from coplanar_init obtain p where p: "POAVR_init coplanar_bonds = Inr p"
    and b: "b1 p = Vector 1 0 0" "b2 p = Vector 0 1 0" "b3 p = Vector (- 1) (- 1) 0"
    by (simp add: POAVR_init_def coplanar_poav_def)
  have 4: "POAV_T p = Finite 0"
    using POAVR_T_scaled[OF p refl]
    by (simp add: POAV_V1_def POAV_V2_def POAV_V3_def POAV_R1_def POAV_R2_def POAV_R3_def
        b unit_vector_def stp_Finite vector_length_def)
  from 1 2 3 4 p scaled_initR ortho_initR show ?thesis by blast
qed

subsection \<open>C7: \<open>todict\<close> in degrees and in radians\<close>

lemma POAV_todict_three:
  assumes "POAV_sigma_pi_angles p = Some [s1, s2, s3]"
    and "POAV_pyramidalization_angles p = Some [y1, y2, y3]"
    and "POAV_misalignment_angles p = Some [z1, z2, z3]"
  shows "fst (POAV_todict p False) = Inr
     [(''bond1'', Finite (vector_length (b1 p))),
      (''bond2'', Finite (vector_length (b2 p))),
      (''bond3'', Finite (vector_length (b3 p))),
      (''sigma_pi_angle1'', Finite s1), (''sigma_pi_angle2'', Finite s2),
      (''sigma_pi_angle3'', Finite s3),
      (''pyramidalization_angle1'', Finite y1), (''pyramidalization_angle2'', Finite y2),
      (''pyramidalization_angle3'', Finite y3),
      (''misalignment_angle1'', Finite z1), (''misalignment_angle2'', Finite z2),
      (''misalignment_angle3'', Finite z3),
      (''T'', POAV_T p), (''H'', POAV_H p), (''A'', POAV_A p)]"
  and "fst (POAV_todict p True) = Inr
     [(''bond1'', Finite (vector_length (b1 p))),
      (''bond2'', Finite (vector_length (b2 p))),
      (''bond3'', Finite (vector_length (b3 p))),
      (''sigma_pi_angle1'', Finite (s1 * 180 / pi)), (''sigma_pi_angle2'', Finite (s2 * 180 / pi)),
      (''sigma_pi_angle3'', Finite (s3 * 180 / pi)),
      (''pyramidalization_angle1'', Finite (y1 * 180 / pi)),
      (''pyramidalization_angle2'', Finite (y2 * 180 / pi)),
      (''pyramidalization_angle3'', Finite (y3 * 180 / pi)),
      (''misalignment_angle1'', Finite (z1 * 180 / pi)),
      (''misalignment_angle2'', Finite (z2 * 180 / pi)),
      (''misalignment_angle3'', Finite (z3 * 180 / pi)),
      (''T'', POAV_T p), (''H'', POAV_H p), (''A'', POAV_A p)]"
  using assms
  by (simp_all add: POAV_todict_def todict_arrays_def py_degrees_def np_degrees_def
      subscript_def todict_keys_def)

lemma degrees_item_simps:
  "degrees_item (''bond1'', v) = (''bond1'', v)"
  "degrees_item (''bond2'', v) = (''bond2'', v)"
  "degrees_item (''bond3'', v) = (''bond3'', v)"
  "degrees_item (''T'', v) = (''T'', v)"
  "degrees_item (''H'', v) = (''H'', v)"
  "degrees_item (''A'', v) = (''A'', v)"
  "degrees_item (''sigma_pi_angle1'', Finite x) = (''sigma_pi_angle1'', Finite (x * 180 / pi))"
  "degrees_item (''sigma_pi_angle2'', Finite x) = (''sigma_pi_angle2'', Finite (x * 180 / pi))"
  "degrees_item (''sigma_pi_angle3'', Finite x) = (''sigma_pi_angle3'', Finite (x * 180 / pi))"
  "degrees_item (''pyramidalization_angle1'', Finite x)
     = (''pyramidalization_angle1'', Finite (x * 180 / pi))"
  "degrees_item (''pyramidalization_angle2'', Finite x)
     = (''pyramidalization_angle2'', Finite (x * 180 / pi))"
  "degrees_item (''pyramidalization_angle3'', Finite x)
     = (''pyramidalization_angle3'', Finite (x * 180 / pi))"
  "degrees_item (''misalignment_angle1'', Finite x)
     = (''misalignment_angle1'', Finite (x * 180 / pi))"
  "degrees_item (''misalignment_angle2'', Finite x)
     = (''misalignment_angle2'', Finite (x * 180 / pi))"
  "degrees_item (''misalignment_angle3'', Finite x)
     = (''misalignment_angle3'', Finite (x * 180 / pi))"
  by (simp_all add: degrees_item_def angle_keys_def)

lemma POAV_todict_degrees:
  assumes "POAV_sigma_pi_angles p = Some [s1, s2, s3]"
    and "POAV_pyramidalization_angles p = Some [y1, y2, y3]"
    and "POAV_misalignment_angles p = Some [z1, z2, z3]"
  shows "\<exists>d. POAV_todict p False = (Inr d, p) \<and> POAV_todict p True = (Inr (map degrees_item d), p)
            \<and> map fst d = todict_keys"
proof -
  have s: "snd (POAV_todict p r) = p" for r by (simp add: POAV_todict_def)
  show ?thesis
    using POAV_todict_three[OF assms] s[of True] s[of False]
    by (cases "POAV_todict p False"; cases "POAV_todict p True")
       (simp add: degrees_item_simps todict_keys_def)
qed

lemma map_degrees_item_update:
  "k \<notin> set angle_keys \<Longrightarrow>
     map degrees_item (AList.update k v d) = AList.update k v (map degrees_item d)"
  by (induction d) (auto simp: degrees_item_def)

text \<open>
  C7. For every POAV instance with the three angle arrays set (\<open>p\<close>: a POAV or POAV1,
  \<open>q\<close>: a POAV2), \<open>todict\<close> returns a mapping \<open>d\<close> with \<open>rad2deg=False\<close> and the mapping
  \<open>map degrees_item d\<close> with \<open>rad2deg=True\<close>: the same keys in the same order, each value
  of an angle key times \<open>180 / pi\<close>, and every other value (\<open>bond1..3\<close>, \<open>T\<close>, \<open>H\<close>, \<open>A\<close>,
  and the indices of POAV1 and POAV2) the same.
\<close>

theorem todict_rad2deg:
  fixes p :: "'a POAV_scheme" and q :: "'b POAV2_scheme"
  assumes "POAV_sigma_pi_angles p = Some [s1, s2, s3]"
    and "POAV_pyramidalization_angles p = Some [y1, y2, y3]"
    and "POAV_misalignment_angles p = Some [z1, z2, z3]"
    and "POAV_sigma_pi_angles q = Some [s1', s2', s3']"
    and "POAV_pyramidalization_angles q = Some [y1', y2', y3']"
    and "POAV_misalignment_angles q = Some [z1', z2', z3']"
  shows "(\<exists>d. fst (POAV_todict p False) = Inr d
            \<and> fst (POAV_todict p True) = Inr (map degrees_item d)
            \<and> map fst d = todict_keys)
       \<and> (\<exists>d. fst (POAV1_todict p False) = Inr d
            \<and> fst (POAV1_todict p True) = Inr (map degrees_item d)
            \<and> map fst d = todict_keys @ [''m'', ''n''])
       \<and> (\<exists>d. fst (POAV2_todict q False) = Inr d
            \<and> fst (POAV2_todict q True) = Inr (map degrees_item d)
            \<and> map fst d = todict_keys @ [''m'', ''n1'', ''n2'', ''n3''])"
proof -
  from POAV_todict_degrees[OF assms(1-3)] obtain d where
    d: "POAV_todict p False = (Inr d, p)" "POAV_todict p True = (Inr (map degrees_item d), p)"
       "map fst d = todict_keys"
    by blast
  from POAV_todict_degrees[OF assms(4-6)] obtain e where
    e: "POAV_todict q False = (Inr e, q)" "POAV_todict q True = (Inr (map degrees_item e), q)"
       "map fst e = todict_keys"
    by blast
  from assms(1) obtain m where m: "POAV1_m p = Inr m"
    by (simp add: POAV1_m_def Let_def)
  then obtain n where n: "POAV1_n p = Inr n"
    by (simp add: POAV1_n_def)
  have nk: "''m'' \<notin> set angle_keys" "''n'' \<notin> set angle_keys" "''n1'' \<notin> set angle_keys"
    "''n2'' \<notin> set angle_keys" "''n3'' \<notin> set angle_keys"
    by (simp_all add: angle_keys_def)
  have nt: "''m'' \<notin> set todict_keys" "''n'' \<notin> set todict_keys" "''n1'' \<notin> set todict_keys"
    "''n2'' \<notin> set todict_keys" "''n3'' \<notin> set todict_keys"
    by (simp_all add: todict_keys_def)
  have 1: "fst (POAV1_todict p False) = Inr (dict_update d [(''m'', m), (''n'', n)])"
    by (simp add: POAV1_todict_def d m n)
  have 2: "fst (POAV1_todict p True)
             = Inr (map degrees_item (dict_update d [(''m'', m), (''n'', n)]))"
    by (simp add: POAV1_todict_def d m n dict_update_def map_degrees_item_update nk)
  have 3: "map fst (dict_update d [(''m'', m), (''n'', n)]) = todict_keys @ [''m'', ''n'']"
    using nt by (simp add: dict_update_def AList.update_keys d(3))
  let ?u = "[(''m'', POAV2_m q), (''n1'', POAV2_n1 q), (''n2'', POAV2_n2 q), (''n3'', POAV2_n3 q)]"
  have 4: "fst (POAV2_todict q False) = Inr (dict_update e ?u)"
    by (simp add: POAV2_todict_def e)
  have 5: "fst (POAV2_todict q True) = Inr (map degrees_item (dict_update e ?u))"
    by (simp add: POAV2_todict_def e dict_update_def map_degrees_item_update nk)
  have 6: "map fst (dict_update e ?u) = todict_keys @ [''m'', ''n1'', ''n2'', ''n3'']"
    using nt by (simp add: dict_update_def AList.update_keys e(3))
  from d 1 2 3 4 5 6 show ?thesis by simp
qed

text \<open>
  Witness: the orthogonal atom with its angle arrays set. Its \<open>sigma_pi_angle1\<close> is
  \<open>pi / 2\<close> in radians and \<open>90\<close> in degrees, its \<open>bond1\<close> is \<open>1\<close> in both.
\<close>

theorem todict_rad2deg_witness:
  "(\<exists>d. fst (POAV_todict (with_angles ortho_poav) False) = Inr d
       \<and> fst (POAV_todict (with_angles ortho_poav) True) = Inr (map degrees_item d)
       \<and> map_of d ''sigma_pi_angle1'' = Some (Finite (pi / 2))
       \<and> map_of (map degrees_item d) ''sigma_pi_angle1'' = Some (Finite 90)
       \<and> map_of d ''bond1'' = Some (Finite 1)
       \<and> map_of (map degrees_item d) ''bond1'' = Some (Finite 1))
   \<and> (\<exists>d. fst (POAV2_todict (with_angles ortho_poav2) False) = Inr d
       \<and> fst (POAV2_todict (with_angles ortho_poav2) True) = Inr (map degrees_item d))"
proof -
  from todict_rad2deg[where p = "with_angles ortho_poav" and q = "with_angles ortho_poav2",
      OF with_angles_fields with_angles_fields]
  obtain d e where
    d: "fst (POAV_todict (with_angles ortho_poav) False) = Inr d"
       "fst (POAV_todict (with_angles ortho_poav) True) = Inr (map degrees_item d)"
    and e: "fst (POAV2_todict (with_angles ortho_poav2) False) = Inr e"
       "fst (POAV2_todict (with_angles ortho_poav2) True) = Inr (map degrees_item e)"
    by blast
  have b: "b1 (with_angles ortho_poav) = Vector 1 0 0"
    by (simp add: with_angles_def ortho_poav_def)
  from d(1) POAV_todict_three(1)[OF with_angles_fields, of ortho_poav]
  have "map_of d ''sigma_pi_angle1'' = Some (Finite (pi / 2))"
    "map_of (map degrees_item d) ''sigma_pi_angle1'' = Some (Finite 90)"
    "map_of d ''bond1'' = Some (Finite 1)"
    "map_of (map degrees_item d) ''bond1'' = Some (Finite 1)"
    by (auto simp: degrees_item_simps b)
  with d e show ?thesis by blast
qed

subsection \<open>C8: the slots of a \<open>POAVAtom\<close>\<close>

text \<open>
  C8. For each of the slots POAV1, POAV2, POAVR of an atom: assigning a value that is
  not an instance of the slot's class raises \<open>TypeError\<close> (the spec's TypeMismatchError),
  as a POAV2 instance assigned to the POAVR slot does; assigning an instance of the class
  stores it; and each slot of a new atom reads \<open>None\<close>.
\<close>

theorem slot_type_check:
  "((\<forall>x. v \<noteq> PyPOAV1 x) \<longrightarrow> POAVAtomMixin_set_POAV1 a v = Inl TypeError)
 \<and> ((\<forall>x. v \<noteq> PyPOAV2 x) \<longrightarrow> POAVAtomMixin_set_POAV2 a v = Inl TypeError)
 \<and> ((\<forall>x. v \<noteq> PyPOAVR x) \<longrightarrow> POAVAtomMixin_set_POAVR a v = Inl TypeError)
 \<and> POAVAtomMixin_set_POAVR a (PyPOAV2 y) = Inl TypeError
 \<and> POAVAtomMixin_set_POAV1 a (PyPOAV1 z) = Inr (a\<lparr>priv_POAV1 := PyPOAV1 z\<rparr>)
 \<and> POAVAtomMixin_set_POAV2 a (PyPOAV2 y) = Inr (a\<lparr>priv_POAV2 := PyPOAV2 y\<rparr>)
 \<and> POAVAtomMixin_set_POAVR a (PyPOAVR z) = Inr (a\<lparr>priv_POAVR := PyPOAVR z\<rparr>)
 \<and> POAVAtomMixin_POAV1 POAVAtom_init = PyNone
 \<and> POAVAtomMixin_POAV2 POAVAtom_init = PyNone
 \<and> POAVAtomMixin_POAVR POAVAtom_init = PyNone"
  by (cases v) (simp_all add: POAVAtomMixin_set_POAV1_def POAVAtomMixin_set_POAV2_def
      POAVAtomMixin_set_POAVR_def POAVAtomMixin_POAV1_def POAVAtomMixin_POAV2_def
      POAVAtomMixin_POAVR_def POAVAtom_init_def)

theorem slot_type_check_witness:
  "POAVAtomMixin_set_POAVR POAVAtom_init (PyPOAV2 ortho_poav2) = Inl TypeError
   \<and> POAVAtomMixin_set_POAV1 POAVAtom_init (PyPOAVR ortho_poav) = Inl TypeError
   \<and> POAVAtomMixin_set_POAV2 POAVAtom_init PyNone = Inl TypeError
   \<and> POAVAtomMixin_set_POAV1 POAVAtom_init (PyPOAV1 ortho_poav)
       = Inr (POAVAtom_init\<lparr>priv_POAV1 := PyPOAV1 ortho_poav\<rparr>)"
  using slot_type_check[where v = "PyPOAV2 ortho_poav2" and a = POAVAtom_init
      and y = ortho_poav2 and z = ortho_poav]
    slot_type_check[where v = "PyPOAVR ortho_poav" and a = POAVAtom_init
      and y = ortho_poav2 and z = ortho_poav]
    slot_type_check[where v = PyNone and a = POAVAtom_init
      and y = ortho_poav2 and z = ortho_poav]
  by simp

subsection \<open>C9: the triple product and the stored T\<close>

lemma POAV1_t_T:
  assumes nz: "vector_length (b1 p) \<noteq> 0" "vector_length (b2 p) \<noteq> 0" "vector_length (b3 p) \<noteq> 0"
    and init: "POAV1_init bs = Inr p"
  shows "\<exists>x. POAV_T p = Finite x \<and> POAV_t p = Finite (6 * x)"
proof -
  from init obtain q where q: "POAV_init bs = Inr q"
    by (auto simp: POAV1_init_def split: sum.splits)
  from POAV_init_fields[OF q] obtain x1 x2 x3 where
    f: "b1 q = x1" "b2 q = x2" "b3 q = x3"
       "priv_T q = np_div (scalar_triple_product (unit_vector (Finite x1))
                                   (unit_vector (Finite x2)) (unit_vector (Finite x3))) (Finite 6)"
    by blast
  from init q have p: "p = q\<lparr>priv_v1 := POAV_V1 q, priv_v2 := POAV_V2 q, priv_v3 := POAV_V3 q\<rparr>"
    by (simp add: POAV1_init_def)
  from nz p f have nz': "vector_length x1 \<noteq> 0" "vector_length x2 \<noteq> 0" "vector_length x3 \<noteq> 0"
    by auto
  define a where "a = vdot (vscale (1 / vector_length x1) x1)
         (vcross (vscale (1 / vector_length x2) x2) (vscale (1 / vector_length x3) x3))"
  have T: "POAV_T p = Finite (a / 6)"
    using nz' f by (simp add: p POAV_T_def unit_vector_Finite stp_Finite a_def)
  have t: "POAV_t p = Finite a"
    using nz' f by (simp add: p POAV_t_def POAV_v1_def POAV_v2_def POAV_v3_def
          POAV_V1_def POAV_V2_def POAV_V3_def unit_vector_Finite stp_Finite a_def)
  from T t show ?thesis by (intro exI[of _ "a / 6"]) simp
qed

lemma POAVR_t_T:
  assumes nz: "vector_length (b1 p) \<noteq> 0" "vector_length (b2 p) \<noteq> 0" "vector_length (b3 p) \<noteq> 0"
    and init: "POAVR_init bs = Inr p"
  shows "\<exists>x. POAV_T p = Finite x \<and> POAV_t p = Finite (6 * x)"
proof -
  from init obtain q where q: "POAV_init bs = Inr q"
    by (auto simp: POAVR_init_def split: sum.splits)
  from POAV_init_fields[OF q] obtain x1 x2 x3 where
    f: "b1 q = x1" "b2 q = x2" "b3 q = x3"
       "priv_T q = np_div (scalar_triple_product (unit_vector (Finite x1))
                                   (unit_vector (Finite x2)) (unit_vector (Finite x3))) (Finite 6)"
    by blast
  from init q have p: "p = q\<lparr>priv_v1 := vector_mul (POAV_R1 q) (POAV_V1 q),
                    priv_v2 := vector_mul (POAV_R2 q) (POAV_V2 q),
                    priv_v3 := vector_mul (POAV_R3 q) (POAV_V3 q),
                    priv_T := np_mul (np_mul (np_mul (POAV_R1 q) (POAV_R2 q)) (POAV_R3 q))
                                     (POAV_T q)\<rparr>"
    by (simp add: POAVR_init_def)
  from nz p f have nz': "vector_length x1 \<noteq> 0" "vector_length x2 \<noteq> 0" "vector_length x3 \<noteq> 0"
    by auto
  define a where "a = vdot x1 (vcross x2 x3)"
  have T: "POAV_T p = Finite (a / 6)"
    using nz' f by (simp add: p POAV_T_def POAV_R1_def POAV_R2_def POAV_R3_def
        unit_vector_Finite stp_Finite stp_vscale a_def)
  have t: "POAV_t p = Finite a"
    using nz' f by (simp add: p POAV_t_def POAV_v1_def POAV_v2_def POAV_v3_def
          POAV_R1_def POAV_R2_def POAV_R3_def
          POAV_V1_def POAV_V2_def POAV_V3_def unit_vector_Finite stp_Finite vscale_vscale
          vscale_one a_def)
  from T t show ?thesis by (intro exI[of _ "a / 6"]) simp
qed

text \<open>
  C9. For every POAV1 instance and every POAVR instance built from three bond vectors
  that are not zero, the stored \<open>T\<close> is a finite \<open>x\<close> and the triple product \<open>t\<close> of the
  representative vectors is \<open>6 * x\<close>.
\<close>

theorem t_eq_six_T:
  assumes "POAV1_init bs = Inr p \<or> POAVR_init bs = Inr p"
    and "vector_length (b1 p) \<noteq> 0" and "vector_length (b2 p) \<noteq> 0"
    and "vector_length (b3 p) \<noteq> 0"
  shows "\<exists>x. POAV_T p = Finite x \<and> POAV_t p = Finite (6 * x)"
  using assms POAV1_t_T[of p bs] POAVR_t_T[of p bs] by blast

text \<open>
  Witness: bonds of length 2. The POAV1 has \<open>T = 1/6\<close> and \<open>t = 1\<close>, the POAVR has
  \<open>T = 4/3\<close> and \<open>t = 8\<close>.
\<close>

theorem t_eq_six_T_witness:
  "POAV1_init scaled_bonds = Inr scaled_poav1 \<and> POAVR_init scaled_bonds = Inr scaled_poavr
   \<and> POAV_T scaled_poav1 = Finite (1 / 6) \<and> POAV_t scaled_poav1 = Finite 1
   \<and> POAV_T scaled_poavr = Finite (4 / 3) \<and> POAV_t scaled_poavr = Finite 8
   \<and> (\<exists>x. POAV_T scaled_poav1 = Finite x \<and> POAV_t scaled_poav1 = Finite (6 * x))
   \<and> (\<exists>x. POAV_T scaled_poavr = Finite x \<and> POAV_t scaled_poavr = Finite (6 * x))"
proof -
  have b: "vector_length (b1 scaled_poav1) \<noteq> 0" "vector_length (b2 scaled_poav1) \<noteq> 0"
    "vector_length (b3 scaled_poav1) \<noteq> 0"
    "vector_length (b1 scaled_poavr) \<noteq> 0" "vector_length (b2 scaled_poavr) \<noteq> 0"
    "vector_length (b3 scaled_poavr) \<noteq> 0"
    by (simp_all add: scaled_poav1_def scaled_poavr_def scaled_poav_def)
  have 1: "\<exists>x. POAV_T scaled_poav1 = Finite x \<and> POAV_t scaled_poav1 = Finite (6 * x)"
    using t_eq_six_T[where bs = scaled_bonds and p = scaled_poav1] scaled_init1 b by blast
  have 2: "\<exists>x. POAV_T scaled_poavr = Finite x \<and> POAV_t scaled_poavr = Finite (6 * x)"
    using t_eq_six_T[where bs = scaled_bonds and p = scaled_poavr] scaled_initR b by blast
  have 3: "POAV_T scaled_poav1 = Finite (1 / 6) \<and> POAV_t scaled_poav1 = Finite 1
   \<and> POAV_T scaled_poavr = Finite (4 / 3) \<and> POAV_t scaled_poavr = Finite 8"
    by (simp add: POAV_T_def POAV_t_def POAV_v1_def POAV_v2_def POAV_v3_def stp_Finite
        scaled_poav1_def scaled_poavr_def scaled_poav_def)
  from 1 2 3 scaled_init1 scaled_initR show ?thesis by blast
qed

subsection \<open>C10: \<open>todict\<close> leaves the object as it is\<close>

text \<open>
  C10. For every POAV instance of any class, \<open>todict\<close>, with either value of \<open>rad2deg\<close>,
  leaves the object as it was: the object after the call is the object before it, with
  the same bond vectors, representative vectors, stored \<open>T\<close> and angle arrays; so a
  second call returns what the first returned. (This holds whether or not the angle
  arrays are set.)
\<close>

theorem todict_frame:
  fixes p :: "'a POAV_scheme" and q :: "'b POAV2_scheme"
  shows "snd (POAV_todict p r) = p \<and> snd (POAV1_todict p r) = p \<and> snd (POAV2_todict q r) = q
    \<and> fst (POAV_todict (snd (POAV_todict p r)) r) = fst (POAV_todict p r)
    \<and> fst (POAV1_todict (snd (POAV1_todict p r)) r) = fst (POAV1_todict p r)
    \<and> fst (POAV2_todict (snd (POAV2_todict q r)) r) = fst (POAV2_todict q r)"
proof -
  have 0: "snd (POAV_todict x r) = x" for x :: "'c POAV_scheme"
    by (simp add: POAV_todict_def)
  have 1: "snd (POAV1_todict p r) = p"
    by (cases "fst (POAV_todict p r)") (simp_all add: POAV1_todict_def POAV_todict_def)
  have 2: "snd (POAV2_todict q r) = q"
    by (cases "fst (POAV_todict q r)") (simp_all add: POAV2_todict_def POAV_todict_def)
  show ?thesis by (simp add: 0 1 2)
qed

end
